theory Spec2Isabelle
  imports Main "HOL-Library.Word"
begin

section \<open>The document access helper of mongo\_gen (package mongoDB)\<close>

text \<open>
  The package is a layer over the MongoDB Go driver. Every function of
  \<^verbatim>\<open>mongoDB/mongo.go\<close> is embedded below as a HOL function of the same name.
  The driver and the service behind it are not code of the repository: they are a
  parameter of the embedding, a record \<open>drv\<close> of functions on a service state
  \<open>'s\<close>. A Go return \<^verbatim>\<open>(*R, error)\<close> is a pair of options (\<open>None\<close> is
  \<^verbatim>\<open>nil\<close>); where the Go code branches on the error before it uses the
  value, the driver's answer is a sum (\<open>Inl\<close> the error). The document type
  \<^verbatim>\<open>T\<close> is the type variable \<open>'d\<close>, the driver's \<^verbatim>\<open>error\<close> values are
  \<open>'e\<close>.

  Every function runs on a \<open>world\<close>: the service state and a log of what the
  function did (a context acquired, a context released, a driver call with its
  context and arguments).
\<close>

subsection \<open>Values of the driver's API\<close>

text \<open>\<^verbatim>\<open>primitive.ObjectID\<close> is \<^verbatim>\<open>[12]byte\<close>.\<close>

type_synonym objectID = "96 word"

text \<open>\<^verbatim>\<open>time.Duration\<close> counts nanoseconds.\<close>

type_synonym duration = int

definition Second :: duration where
  "Second = 1000000000"

text \<open>
  \<^verbatim>\<open>context.Background()\<close> and \<^verbatim>\<open>context.WithTimeout(parent, d)\<close>.
\<close>

datatype "context" = Background | WithTimeout "context" duration

text \<open>
  The values a \<^verbatim>\<open>bson.E\<close> of this package holds: an ObjectID, an integer, a
  string or a whole document of type \<^verbatim>\<open>T\<close>. \<^verbatim>\<open>bson.D\<close> is an ordered list of
  key/value pairs, \<^verbatim>\<open>bson.M\<close> a Go map; the driver takes either as
  \<^verbatim>\<open>interface{}\<close>.
\<close>

datatype 'd bson_value = OidV objectID | IntV int | StrV string | DocV 'd

type_synonym 'd bson_D = "(string \<times> 'd bson_value) list"

datatype 'd bson_doc = BsonD "'d bson_D" | BsonM "(string \<times> 'd bson_value) list"

datatype client = ClientRef nat

datatype cursor = CursorRef nat

record database =
  db_client :: client
  db_name :: string

record collection =
  coll_db :: database
  coll_name :: string

text \<open>\<^verbatim>\<open>client.Database(name)\<close>, \<^verbatim>\<open>db.Collection(name)\<close>, \<^verbatim>\<open>db.Client()\<close>.\<close>

definition Database :: "client \<Rightarrow> string \<Rightarrow> database" where
  "Database c name = \<lparr>db_client = c, db_name = name\<rparr>"

definition Collection :: "database \<Rightarrow> string \<Rightarrow> collection" where
  "Collection db name = \<lparr>coll_db = db, coll_name = name\<rparr>"

definition Client_of :: "database \<Rightarrow> client" where
  "Client_of db = db_client db"

record client_options =
  co_uri :: "string option"

definition options_Client :: client_options where
  "options_Client = \<lparr>co_uri = None\<rparr>"

definition ApplyURI :: "client_options \<Rightarrow> string \<Rightarrow> client_options" where
  "ApplyURI opts url = opts\<lparr>co_uri := Some url\<rparr>"

record create_indexes_options =
  MaxTime :: "duration option"

definition options_CreateIndexes :: create_indexes_options where
  "options_CreateIndexes = \<lparr>MaxTime = None\<rparr>"

definition SetMaxTime :: "create_indexes_options \<Rightarrow> duration \<Rightarrow> create_indexes_options" where
  "SetMaxTime opts d = opts\<lparr>MaxTime := Some d\<rparr>"

record 'd index_model =
  Keys :: "'d bson_doc"

record 'd find_options =
  Sort :: "'d bson_doc option"
  Skip :: "int option"
  Limit :: "int option"

definition options_Find :: "'d find_options" where
  "options_Find = \<lparr>Sort = None, Skip = None, Limit = None\<rparr>"

definition SetSort :: "'d find_options \<Rightarrow> 'd bson_doc \<Rightarrow> 'd find_options" where
  "SetSort opts s = opts\<lparr>Sort := Some s\<rparr>"

definition SetSkip :: "'d find_options \<Rightarrow> int \<Rightarrow> 'd find_options" where
  "SetSkip opts n = opts\<lparr>Skip := Some n\<rparr>"

definition SetLimit :: "'d find_options \<Rightarrow> int \<Rightarrow> 'd find_options" where
  "SetLimit opts n = opts\<lparr>Limit := Some n\<rparr>"

record 'd delete_options =
  Hint :: "'d bson_doc option"

definition options_Delete :: "'d delete_options" where
  "options_Delete = \<lparr>Hint = None\<rparr>"

definition SetHint :: "'d delete_options \<Rightarrow> 'd bson_doc \<Rightarrow> 'd delete_options" where
  "SetHint opts h = opts\<lparr>Hint := Some h\<rparr>"

text \<open>The driver's acknowledgements; this layer returns them as it gets them.\<close>

record 'd insert_one_result =
  InsertedID :: "'d bson_value"

record 'd insert_many_result =
  InsertedIDs :: "'d bson_value list"

record 'd update_result =
  MatchedCount :: int
  ModifiedCount :: int
  UpsertedCount :: int
  UpsertedID :: "'d bson_value option"

record delete_result =
  DeletedCount :: int

subsection \<open>The driver, and the log of a call\<close>

datatype 'd request =
    ReqConnect client_options
  | ReqPing client
  | ReqDisconnect client
  | ReqCreateOne collection "'d index_model" create_indexes_options
  | ReqInsertOne collection 'd
  | ReqInsertMany collection "'d option list"
  | ReqUpdateOne collection "'d bson_doc" "'d bson_doc"
  | ReqFindOneDecode collection "'d bson_doc"
  | ReqDeleteOne collection "'d bson_doc" "'d delete_options"
  | ReqFind collection "'d bson_doc" "'d find_options"
  | ReqCursorAll cursor
  | ReqCursorClose cursor

datatype 'd event = Acquire "context" | Release "context" | Call "context" "'d request"

text \<open>
  One field for each driver call the package makes, with the arguments the package
  gives it. \<open>drv_FindOne_Decode\<close> is
  \<^verbatim>\<open>collection.FindOne(ctx, filter).Decode(&result)\<close>: it takes the value of
  \<^verbatim>\<open>result\<close> before the call and returns its value after it, with the error.
  \<open>drv_Cursor_All\<close> does the same for \<^verbatim>\<open>cursor.All(ctx, &results)\<close>.
  \<^verbatim>\<open>interface{}\<close> elements are options (\<open>None\<close> is the nil interface).
\<close>

record ('s, 'd, 'e) driver =
  drv_Connect :: "context \<Rightarrow> client_options \<Rightarrow> 's \<Rightarrow> ('e + client) \<times> 's"
  drv_Ping :: "context \<Rightarrow> client \<Rightarrow> 's \<Rightarrow> 'e option \<times> 's"
  drv_Disconnect :: "context \<Rightarrow> client \<Rightarrow> 's \<Rightarrow> 'e option \<times> 's"
  drv_CreateOne :: "context \<Rightarrow> collection \<Rightarrow> 'd index_model \<Rightarrow> create_indexes_options
    \<Rightarrow> 's \<Rightarrow> (string \<times> 'e option) \<times> 's"
  drv_InsertOne :: "context \<Rightarrow> collection \<Rightarrow> 'd
    \<Rightarrow> 's \<Rightarrow> ('d insert_one_result option \<times> 'e option) \<times> 's"
  drv_InsertMany :: "context \<Rightarrow> collection \<Rightarrow> 'd option list
    \<Rightarrow> 's \<Rightarrow> ('d insert_many_result option \<times> 'e option) \<times> 's"
  drv_UpdateOne :: "context \<Rightarrow> collection \<Rightarrow> 'd bson_doc \<Rightarrow> 'd bson_doc
    \<Rightarrow> 's \<Rightarrow> ('d update_result option \<times> 'e option) \<times> 's"
  drv_FindOne_Decode :: "context \<Rightarrow> collection \<Rightarrow> 'd bson_doc \<Rightarrow> 'd
    \<Rightarrow> 's \<Rightarrow> ('d \<times> 'e option) \<times> 's"
  drv_DeleteOne :: "context \<Rightarrow> collection \<Rightarrow> 'd bson_doc \<Rightarrow> 'd delete_options
    \<Rightarrow> 's \<Rightarrow> (delete_result option \<times> 'e option) \<times> 's"
  drv_Find :: "context \<Rightarrow> collection \<Rightarrow> 'd bson_doc \<Rightarrow> 'd find_options
    \<Rightarrow> 's \<Rightarrow> ('e + cursor) \<times> 's"
  drv_Cursor_All :: "context \<Rightarrow> cursor \<Rightarrow> 'd list \<Rightarrow> 's \<Rightarrow> ('d list \<times> 'e option) \<times> 's"
  drv_Cursor_Close :: "context \<Rightarrow> cursor \<Rightarrow> 's \<Rightarrow> 'e option \<times> 's"

record ('s, 'd) world =
  svc :: 's
  log :: "'d event list"

definition emit :: "'d event \<Rightarrow> ('s, 'd) world \<Rightarrow> ('s, 'd) world" where
  "emit ev w = w\<lparr>log := log w @ [ev]\<rparr>"

text \<open>
  A driver call: the driver's function runs on the service state, and the call is
  logged with its context and arguments.
\<close>

definition call :: "context \<Rightarrow> 'd request \<Rightarrow> ('s \<Rightarrow> 'a \<times> 's) \<Rightarrow> ('s, 'd) world
    \<Rightarrow> 'a \<times> ('s, 'd) world" where
  "call ctx req f w =
     (let (r, s') = f (svc w) in (r, \<lparr>svc = s', log = log w @ [Call ctx req]\<rparr>))"

text \<open>The context every function of the package makes for itself.\<close>

abbreviation ten_seconds :: "context" where
  "ten_seconds \<equiv> WithTimeout Background (10 * Second)"

subsection \<open>mongo.go\<close>

record MongoHandler =
  DB :: database

text \<open>
  \<^verbatim>\<open>NewMongoHandler(dbName, url)\<close>. The deferred \<^verbatim>\<open>cancel()\<close> runs at each
  return: it is the \<open>emit (Release ctx)\<close> of each branch.
\<close>

definition NewMongoHandler :: "('s, 'd, 'e) driver \<Rightarrow> string \<Rightarrow> string \<Rightarrow> ('s, 'd) world
    \<Rightarrow> (MongoHandler option \<times> 'e option) \<times> ('s, 'd) world" where
  "NewMongoHandler drv dbName url w0 =
     (let ctx = WithTimeout Background (10 * Second);
          w1 = emit (Acquire ctx) w0;
          opts = ApplyURI options_Client url;
          (r, w2) = call ctx (ReqConnect opts) (drv_Connect drv ctx opts) w1
      in case r of
           Inl err \<Rightarrow> ((None, Some err), emit (Release ctx) w2)
         | Inr client \<Rightarrow>
             (let (err, w3) = call ctx (ReqPing client) (drv_Ping drv ctx client) w2
              in case err of
                   Some e \<Rightarrow> ((None, Some e), emit (Release ctx) w3)
                 | None \<Rightarrow>
                     ((Some \<lparr>DB = Database client dbName\<rparr>, None), emit (Release ctx) w3)))"

text \<open>\<^verbatim>\<open>CreateIndex(db, collectionName, model)\<close>: the created index's name is dropped.\<close>

definition CreateIndex :: "('s, 'd, 'e) driver \<Rightarrow> database \<Rightarrow> string \<Rightarrow> 'd bson_D
    \<Rightarrow> ('s, 'd) world \<Rightarrow> 'e option \<times> ('s, 'd) world" where
  "CreateIndex drv db collectionName model w0 =
     (let ctx = WithTimeout Background (10 * Second);
          w1 = emit (Acquire ctx) w0;
          indexOpts = SetMaxTime options_CreateIndexes (Second * 10);
          collection = Collection db collectionName;
          indexModel = \<lparr>Keys = BsonD model\<rparr>;
          ((_, err), w2) = call ctx (ReqCreateOne collection indexModel indexOpts)
                             (drv_CreateOne drv ctx collection indexModel indexOpts) w1
      in (err, emit (Release ctx) w2))"

definition SaveOne :: "('s, 'd, 'e) driver \<Rightarrow> database \<Rightarrow> string \<Rightarrow> 'd
    \<Rightarrow> ('s, 'd) world \<Rightarrow> ('d insert_one_result option \<times> 'e option) \<times> ('s, 'd) world" where
  "SaveOne drv db collectionName doc w0 =
     (let ctx = WithTimeout Background (10 * Second);
          w1 = emit (Acquire ctx) w0;
          collection = Collection db collectionName;
          (r, w2) = call ctx (ReqInsertOne collection doc)
                      (drv_InsertOne drv ctx collection doc) w1
      in (r, emit (Release ctx) w2))"

text \<open>
  The loop of \<^verbatim>\<open>SaveMany\<close>: \<^verbatim>\<open>for i, doc := range docs { interfaces[i] = doc }\<close>,
  from index \<open>i\<close> on. \<^verbatim>\<open>interfaces\<close> has the length of \<^verbatim>\<open>docs\<close>, so the index
  is in range at every store.
\<close>

function to_interfaces :: "'d list \<Rightarrow> nat \<Rightarrow> 'd option list \<Rightarrow> 'd option list" where
  "to_interfaces docs i interfaces =
     (if i < length docs
      then to_interfaces docs (i + 1) (interfaces[i := Some (docs ! i)])
      else interfaces)"
  by pat_completeness auto
termination
  by (relation "measure (\<lambda>(docs, i, interfaces). length docs - i)") auto

declare to_interfaces.simps [simp del]

definition SaveMany :: "('s, 'd, 'e) driver \<Rightarrow> database \<Rightarrow> string \<Rightarrow> 'd list
    \<Rightarrow> ('s, 'd) world \<Rightarrow> ('d insert_many_result option \<times> 'e option) \<times> ('s, 'd) world" where
  "SaveMany drv db collectionName docs w0 =
     (let interfaces = to_interfaces docs 0 (replicate (length docs) None);
          ctx = WithTimeout Background (10 * Second);
          w1 = emit (Acquire ctx) w0;
          collection = Collection db collectionName;
          (r, w2) = call ctx (ReqInsertMany collection interfaces)
                      (drv_InsertMany drv ctx collection interfaces) w1
      in (r, emit (Release ctx) w2))"

text \<open>\<^verbatim>\<open>UpdateOne\<close>: \<open>getID\<close> is the method \<^verbatim>\<open>GetID\<close> of the document type.\<close>

definition UpdateOne :: "('s, 'd, 'e) driver \<Rightarrow> ('d \<Rightarrow> objectID) \<Rightarrow> database \<Rightarrow> string \<Rightarrow> 'd
    \<Rightarrow> ('s, 'd) world \<Rightarrow> ('d update_result option \<times> 'e option) \<times> ('s, 'd) world" where
  "UpdateOne drv getID db collectionName doc w0 =
     (let ctx = WithTimeout Background (10 * Second);
          w1 = emit (Acquire ctx) w0;
          collection = Collection db collectionName;
          filter' = BsonD [(''_id'', OidV (getID doc))];
          update = BsonD [(''$set'', DocV doc)];
          (r, w2) = call ctx (ReqUpdateOne collection filter' update)
                      (drv_UpdateOne drv ctx collection filter' update) w1
      in (r, emit (Release ctx) w2))"

text \<open>\<^verbatim>\<open>FindOne\<close>: \<open>zero\<close> is the zero value of \<^verbatim>\<open>T\<close> (\<^verbatim>\<open>var result T\<close>).\<close>

definition FindOne :: "('s, 'd, 'e) driver \<Rightarrow> 'd \<Rightarrow> database \<Rightarrow> string \<Rightarrow> 'd bson_D
    \<Rightarrow> ('s, 'd) world \<Rightarrow> ('d option \<times> 'e option) \<times> ('s, 'd) world" where
  "FindOne drv zero db collectionName filter' w0 =
     (let result = zero;
          ctx = WithTimeout Background (10 * Second);
          w1 = emit (Acquire ctx) w0;
          collection = Collection db collectionName;
          ((result, err), w2) = call ctx (ReqFindOneDecode collection (BsonD filter'))
                      (drv_FindOne_Decode drv ctx collection (BsonD filter') result) w1
      in case err of
           Some e \<Rightarrow> ((None, Some e), emit (Release ctx) w2)
         | None \<Rightarrow> ((Some result, None), emit (Release ctx) w2))"

definition DeleteOne :: "('s, 'd, 'e) driver \<Rightarrow> database \<Rightarrow> string \<Rightarrow> objectID
    \<Rightarrow> ('s, 'd) world \<Rightarrow> (delete_result option \<times> 'e option) \<times> ('s, 'd) world" where
  "DeleteOne drv db collectionName id' w0 =
     (let ctx = WithTimeout Background (10 * Second);
          w1 = emit (Acquire ctx) w0;
          collection = Collection db collectionName;
          opts = SetHint options_Delete (BsonD [(''_id'', IntV 1)]);
          filter' = BsonM [(''_id'', OidV id')];
          (r, w2) = call ctx (ReqDeleteOne collection filter' opts)
                      (drv_DeleteOne drv ctx collection filter' opts) w1
      in (r, emit (Release ctx) w2))"

text \<open>
  \<^verbatim>\<open>Find\<close>. Two calls are deferred once the cursor is open: \<^verbatim>\<open>cursor.Close(ctx)\<close>,
  whose error is dropped, runs first and \<^verbatim>\<open>cancel()\<close> last.
\<close>

definition Find :: "('s, 'd, 'e) driver \<Rightarrow> database \<Rightarrow> string \<Rightarrow> 'd bson_D \<Rightarrow> 'd bson_D
    \<Rightarrow> int \<Rightarrow> int \<Rightarrow> ('s, 'd) world \<Rightarrow> ('d list option \<times> 'e option) \<times> ('s, 'd) world" where
  "Find drv db collectionName sortModel filter' skip limit w0 =
     (let results = [];
          ctx = WithTimeout Background (10 * Second);
          w1 = emit (Acquire ctx) w0;
          opts = SetLimit (SetSkip (SetSort options_Find (BsonD sortModel)) skip) limit;
          collection = Collection db collectionName;
          (r, w2) = call ctx (ReqFind collection (BsonD filter') opts)
                      (drv_Find drv ctx collection (BsonD filter') opts) w1
      in case r of
           Inl err \<Rightarrow> ((None, Some err), emit (Release ctx) w2)
         | Inr cursor \<Rightarrow>
             (let ((results, err), w3) = call ctx (ReqCursorAll cursor)
                                           (drv_Cursor_All drv ctx cursor results) w2;
                  (_, w4) = call ctx (ReqCursorClose cursor)
                              (drv_Cursor_Close drv ctx cursor) w3
              in case err of
                   Some e \<Rightarrow> ((None, Some e), emit (Release ctx) w4)
                 | None \<Rightarrow> ((Some results, None), emit (Release ctx) w4)))"

text \<open>\<^verbatim>\<open>(h *MongoHandler) Close()\<close>.\<close>

definition Close :: "('s, 'd, 'e) driver \<Rightarrow> MongoHandler \<Rightarrow> ('s, 'd) world
    \<Rightarrow> 'e option \<times> ('s, 'd) world" where
  "Close drv h w0 =
     (let ctx = WithTimeout Background (10 * Second);
          w1 = emit (Acquire ctx) w0;
          client = Client_of (DB h);
          (err, w2) = call ctx (ReqDisconnect client) (drv_Disconnect drv ctx client) w1
      in (err, emit (Release ctx) w2))"

subsection \<open>Reading the log of one call\<close>

text \<open>The events a call appended to the log it started from.\<close>

definition appended :: "('s, 'd) world \<Rightarrow> ('s, 'd) world \<Rightarrow> 'd event list" where
  "appended w0 w = drop (length (log w0)) (log w)"

fun is_call_under :: "context \<Rightarrow> 'd event \<Rightarrow> bool" where
  "is_call_under c (Call c' _) = (c' = c)"
| "is_call_under c _ = False"

text \<open>
  One scope of ten seconds: the events start with its acquisition from the background
  context, end with its release, and everything between is a driver call under it.
\<close>

definition one_scope :: "'d event list \<Rightarrow> bool" where
  "one_scope evs \<longleftrightarrow>
     2 \<le> length evs \<and>
     hd evs = Acquire (WithTimeout Background (10 * Second)) \<and>
     last evs = Release (WithTimeout Background (10 * Second)) \<and>
     list_all (is_call_under (WithTimeout Background (10 * Second))) (butlast (tl evs))"

datatype call_kind = KConnect | KPing | KDisconnect | KCreateOne | KInsertOne | KInsertMany
  | KUpdateOne | KFindOneDecode | KDeleteOne | KFind | KCursorAll | KCursorClose

fun kind_of :: "'d request \<Rightarrow> call_kind" where
  "kind_of (ReqConnect _) = KConnect"
| "kind_of (ReqPing _) = KPing"
| "kind_of (ReqDisconnect _) = KDisconnect"
| "kind_of (ReqCreateOne _ _ _) = KCreateOne"
| "kind_of (ReqInsertOne _ _) = KInsertOne"
| "kind_of (ReqInsertMany _ _) = KInsertMany"
| "kind_of (ReqUpdateOne _ _ _) = KUpdateOne"
| "kind_of (ReqFindOneDecode _ _) = KFindOneDecode"
| "kind_of (ReqDeleteOne _ _ _) = KDeleteOne"
| "kind_of (ReqFind _ _ _) = KFind"
| "kind_of (ReqCursorAll _) = KCursorAll"
| "kind_of (ReqCursorClose _) = KCursorClose"

fun calls_of :: "'d event list \<Rightarrow> 'd request list" where
  "calls_of [] = []"
| "calls_of (Call _ r # evs) = r # calls_of evs"
| "calls_of (_ # evs) = calls_of evs"

text \<open>No driver call is made twice.\<close>

definition each_call_once :: "'d event list \<Rightarrow> bool" where
  "each_call_once evs \<longleftrightarrow> distinct (map kind_of (calls_of evs))"

subsection \<open>What is assumed of the service\<close>



text \<open>A find whose filter selects no stored document reports an error.\<close>

definition reports_no_match :: "('s, 'd, 'e) driver \<Rightarrow> ('s \<Rightarrow> collection \<Rightarrow> 'd list)
    \<Rightarrow> ('d bson_doc \<Rightarrow> 'd \<Rightarrow> bool) \<Rightarrow> bool" where
  "reports_no_match drv stored matches \<longleftrightarrow>
     (\<forall>ctx c f z s. (\<forall>x \<in> set (stored s c). \<not> matches f x)
        \<longrightarrow> snd (fst (drv_FindOne_Decode drv ctx c f z s)) \<noteq> None)"

text \<open>
  An update with no option (so no upsert) that sets a document's fields, by an
  identifier no stored document has: acknowledged, nothing matched, nothing stored.
\<close>

definition update_misses_quietly :: "('s, 'd, 'e) driver \<Rightarrow> ('s \<Rightarrow> collection \<Rightarrow> 'd list)
    \<Rightarrow> ('d \<Rightarrow> objectID) \<Rightarrow> bool" where
  "update_misses_quietly drv stored getID \<longleftrightarrow>
     (\<forall>ctx c i d s. (\<forall>x \<in> set (stored s c). getID x \<noteq> i)
        \<longrightarrow> (\<exists>r s'. drv_UpdateOne drv ctx c (BsonD [(''_id'', OidV i)])
                        (BsonD [(''$set'', DocV d)]) s = ((Some r, None), s')
               \<and> MatchedCount r = 0 \<and> stored s' = stored s))"

definition delete_misses_quietly :: "('s, 'd, 'e) driver \<Rightarrow> ('s \<Rightarrow> collection \<Rightarrow> 'd list)
    \<Rightarrow> ('d \<Rightarrow> objectID) \<Rightarrow> bool" where
  "delete_misses_quietly drv stored getID \<longleftrightarrow>
     (\<forall>ctx c i opts s. (\<forall>x \<in> set (stored s c). getID x \<noteq> i)
        \<longrightarrow> (\<exists>r s'. drv_DeleteOne drv ctx c (BsonM [(''_id'', OidV i)]) opts s = ((Some r, None), s')
               \<and> DeletedCount r = 0))"

text \<open>
  A find that is drained by \<^verbatim>\<open>All\<close>: the documents come in the order \<open>ordered\<close>
  that the service gives to the sort document, and a positive limit bounds their
  number.
\<close>

definition honours_limit_and_sort :: "('s, 'd, 'e) driver \<Rightarrow> ('d bson_doc \<Rightarrow> 'd list \<Rightarrow> bool)
    \<Rightarrow> bool" where
  "honours_limit_and_sort drv ordered \<longleftrightarrow>
     (\<forall>ctx c f so k n s cur s1 rs0 rs s2.
        drv_Find drv ctx c f \<lparr>Sort = Some so, Skip = Some k, Limit = Some n\<rparr> s = (Inr cur, s1) \<and>
        drv_Cursor_All drv ctx cur rs0 s1 = ((rs, None), s2)
        \<longrightarrow> ordered so rs \<and> (0 < n \<longrightarrow> int (length rs) \<le> n))"

subsection \<open>example.go, and an in-memory service for it\<close>

record User =
  ID :: objectID
  Name :: string

definition GetID :: "User \<Rightarrow> objectID" where
  "GetID u = ID u"

text \<open>
  A stand-in for the service on which the theorems are instantiated: collections are
  lists of users in insertion order. A filter is a conjunction of equalities on
  \<^verbatim>\<open>_id\<close> and \<^verbatim>\<open>name\<close>; the only sort it knows is by \<^verbatim>\<open>_id\<close>; a limit of
  0 is no limit and a negative limit counts by its absolute value, as the service
  documents them. It never times out.
\<close>

datatype mem_error = ErrNoDocuments | ErrEmptySlice | ErrNilDocument | CommandError
  | DeadlineExceeded

record mem_service =
  mem_docs :: "collection \<Rightarrow> User list"
  mem_cursors :: "nat \<Rightarrow> User list"
  mem_next :: nat

fun mem_matches_field :: "User \<Rightarrow> string \<times> User bson_value \<Rightarrow> bool" where
  "mem_matches_field u (k, OidV i) = (k = ''_id'' \<and> ID u = i)"
| "mem_matches_field u (k, StrV n) = (k = ''name'' \<and> Name u = n)"
| "mem_matches_field u (k, IntV _) = False"
| "mem_matches_field u (k, DocV _) = False"

fun mem_matches :: "User bson_doc \<Rightarrow> User \<Rightarrow> bool" where
  "mem_matches (BsonD kvs) u = list_all (mem_matches_field u) kvs"
| "mem_matches (BsonM kvs) u = list_all (mem_matches_field u) kvs"

fun mem_sort :: "User bson_doc \<Rightarrow> User list \<Rightarrow> User list" where
  "mem_sort (BsonD [(k, IntV d)]) us =
     (if k = ''_id'' then (if 0 < d then sort_key ID us else rev (sort_key ID us)) else us)"
| "mem_sort _ us = us"

fun mem_ordered :: "User bson_doc \<Rightarrow> User list \<Rightarrow> bool" where
  "mem_ordered (BsonD [(k, IntV d)]) us =
     (if k = ''_id'' then (if 0 < d then sorted (map ID us) else sorted (rev (map ID us)))
      else True)"
| "mem_ordered _ us = True"

definition mem_limit :: "int \<Rightarrow> User list \<Rightarrow> User list" where
  "mem_limit n us = (if n = 0 then us else take (nat \<bar>n\<bar>) us)"

fun replace_first :: "('a \<Rightarrow> bool) \<Rightarrow> 'a \<Rightarrow> 'a list \<Rightarrow> 'a list" where
  "replace_first P y [] = []"
| "replace_first P y (x # xs) = (if P x then y # xs else x # replace_first P y xs)"

fun remove_first :: "('a \<Rightarrow> bool) \<Rightarrow> 'a list \<Rightarrow> 'a list" where
  "remove_first P [] = []"
| "remove_first P (x # xs) = (if P x then xs else x # remove_first P xs)"

definition mem_put :: "mem_service \<Rightarrow> collection \<Rightarrow> User list \<Rightarrow> mem_service" where
  "mem_put s c us = s\<lparr>mem_docs := (mem_docs s)(c := us)\<rparr>"

definition mem_InsertMany :: "collection \<Rightarrow> User option list \<Rightarrow> mem_service
    \<Rightarrow> (User insert_many_result option \<times> mem_error option) \<times> mem_service" where
  "mem_InsertMany c ds s =
     (if ds = [] then ((None, Some ErrEmptySlice), s)
      else case those ds of
             None \<Rightarrow> ((None, Some ErrNilDocument), s)
           | Some us \<Rightarrow> ((Some \<lparr>InsertedIDs = map (\<lambda>u. OidV (ID u)) us\<rparr>, None),
                         mem_put s c (mem_docs s c @ us)))"

fun mem_UpdateOne :: "collection \<Rightarrow> User bson_doc \<Rightarrow> User bson_doc \<Rightarrow> mem_service
    \<Rightarrow> (User update_result option \<times> mem_error option) \<times> mem_service" where
  "mem_UpdateOne c f (BsonD [(k, DocV d)]) s =
     (if k \<noteq> ''$set'' then ((None, Some CommandError), s)
      else if list_ex (mem_matches f) (mem_docs s c)
      then ((Some \<lparr>MatchedCount = 1, ModifiedCount = 1, UpsertedCount = 0, UpsertedID = None\<rparr>,
             None), mem_put s c (replace_first (mem_matches f) d (mem_docs s c)))
      else ((Some \<lparr>MatchedCount = 0, ModifiedCount = 0, UpsertedCount = 0, UpsertedID = None\<rparr>,
             None), s))"
| "mem_UpdateOne c f _ s = ((None, Some CommandError), s)"

definition mem_FindOne_Decode :: "collection \<Rightarrow> User bson_doc \<Rightarrow> User \<Rightarrow> mem_service
    \<Rightarrow> (User \<times> mem_error option) \<times> mem_service" where
  "mem_FindOne_Decode c f z s =
     (case filter (mem_matches f) (mem_docs s c) of
        [] \<Rightarrow> ((z, Some ErrNoDocuments), s)
      | u # _ \<Rightarrow> ((u, None), s))"

definition mem_DeleteOne :: "collection \<Rightarrow> User bson_doc \<Rightarrow> mem_service
    \<Rightarrow> (delete_result option \<times> mem_error option) \<times> mem_service" where
  "mem_DeleteOne c f s =
     (if list_ex (mem_matches f) (mem_docs s c)
      then ((Some \<lparr>DeletedCount = 1\<rparr>, None),
            mem_put s c (remove_first (mem_matches f) (mem_docs s c)))
      else ((Some \<lparr>DeletedCount = 0\<rparr>, None), s))"

definition mem_select :: "User find_options \<Rightarrow> User list \<Rightarrow> User list" where
  "mem_select opts us =
     (let us1 = (case Sort opts of None \<Rightarrow> us | Some so \<Rightarrow> mem_sort so us);
          us2 = (case Skip opts of None \<Rightarrow> us1 | Some k \<Rightarrow> drop (nat k) us1)
      in case Limit opts of None \<Rightarrow> us2 | Some n \<Rightarrow> mem_limit n us2)"

definition mem_Find :: "collection \<Rightarrow> User bson_doc \<Rightarrow> User find_options \<Rightarrow> mem_service
    \<Rightarrow> (mem_error + cursor) \<times> mem_service" where
  "mem_Find c f opts s =
     (if (case Skip opts of None \<Rightarrow> False | Some k \<Rightarrow> k < 0) then (Inl CommandError, s)
      else (Inr (CursorRef (mem_next s)),
            s\<lparr>mem_cursors := (mem_cursors s)
                 (mem_next s := mem_select opts (filter (mem_matches f) (mem_docs s c))),
              mem_next := Suc (mem_next s)\<rparr>))"

fun mem_Cursor_All :: "cursor \<Rightarrow> User list \<Rightarrow> mem_service
    \<Rightarrow> (User list \<times> mem_error option) \<times> mem_service" where
  "mem_Cursor_All (CursorRef n) rs s =
     ((mem_cursors s n, None), s\<lparr>mem_cursors := (mem_cursors s)(n := [])\<rparr>)"

definition mem_driver :: "(mem_service, User, mem_error) driver" where
  "mem_driver =
     \<lparr>drv_Connect = (\<lambda>ctx opts s. (Inr (ClientRef 0), s)),
      drv_Ping = (\<lambda>ctx cl s. (None, s)),
      drv_Disconnect = (\<lambda>ctx cl s. (None, s)),
      drv_CreateOne = (\<lambda>ctx c m opts s. ((''index'', None), s)),
      drv_InsertOne = (\<lambda>ctx c d s.
        ((Some \<lparr>InsertedID = OidV (ID d)\<rparr>, None), mem_put s c (mem_docs s c @ [d]))),
      drv_InsertMany = (\<lambda>ctx. mem_InsertMany),
      drv_UpdateOne = (\<lambda>ctx. mem_UpdateOne),
      drv_FindOne_Decode = (\<lambda>ctx. mem_FindOne_Decode),
      drv_DeleteOne = (\<lambda>ctx c f opts. mem_DeleteOne c f),
      drv_Find = (\<lambda>ctx. mem_Find),
      drv_Cursor_All = (\<lambda>ctx. mem_Cursor_All),
      drv_Cursor_Close = (\<lambda>ctx cur s. (None, s))\<rparr>"




text \<open>The service with nothing stored, and the database handle of the examples.\<close>

definition mem_empty :: mem_service where
  "mem_empty = \<lparr>mem_docs = (\<lambda>c. []), mem_cursors = (\<lambda>n. []), mem_next = 0\<rparr>"

definition mem_world :: "User list \<Rightarrow> (mem_service, User) world" where
  "mem_world us =
     \<lparr>svc = mem_put mem_empty (Collection (Database (ClientRef 0) ''test_db'') ''users'') us,
      log = []\<rparr>"

text \<open>Two users, the database of example.go, and drivers that fail.\<close>

definition john :: User where
  "john = \<lparr>ID = 1, Name = ''John Doe''\<rparr>"

definition jane :: User where
  "jane = \<lparr>ID = 2, Name = ''Jane Roe''\<rparr>"

text \<open>\<^verbatim>\<open>User{Name: "John Doe"}\<close> of example.go: the identifier is the zero ObjectID.\<close>

definition john_doe :: User where
  "john_doe = \<lparr>ID = 0, Name = ''John Doe''\<rparr>"

definition users_db :: database where
  "users_db = Database (ClientRef 0) ''test_db''"

definition mem_driver_timing_out :: "(mem_service, User, mem_error) driver" where
  "mem_driver_timing_out =
     mem_driver\<lparr>drv_Connect := (\<lambda>ctx opts s. (Inl DeadlineExceeded, s)),
                drv_FindOne_Decode := (\<lambda>ctx c f z s. ((z, Some DeadlineExceeded), s))\<rparr>"

definition mem_driver_no_ping :: "(mem_service, User, mem_error) driver" where
  "mem_driver_no_ping = mem_driver\<lparr>drv_Ping := (\<lambda>ctx cl s. (Some DeadlineExceeded, s))\<rparr>"

text \<open>
  A service that does not answer a write in time, and one whose \<^verbatim>\<open>cursor.Close\<close>
  reports an error.
\<close>

definition mem_driver_write_timeout :: "(mem_service, User, mem_error) driver" where
  "mem_driver_write_timeout =
     mem_driver\<lparr>drv_UpdateOne := (\<lambda>ctx c f u s. ((None, Some DeadlineExceeded), s)),
                drv_DeleteOne := (\<lambda>ctx c f opts s. ((None, Some DeadlineExceeded), s))\<rparr>"

definition mem_driver_close_fails :: "(mem_service, User, mem_error) driver" where
  "mem_driver_close_fails =
     mem_driver\<lparr>drv_Cursor_Close := (\<lambda>ctx cur s. (Some CommandError, s))\<rparr>"

section \<open>Each function, call by call\<close>

text \<open>
  The result, the service state and the log of every function, in terms of the
  driver's answers.
\<close>

lemmas op_defs = call_def emit_def Let_def split_def

lemma NewMongoHandler_run:
  "NewMongoHandler drv dbName url w =
     (let opts = ApplyURI options_Client url
      in case drv_Connect drv ten_seconds opts (svc w) of
           (Inl e, s1) \<Rightarrow>
             ((None, Some e),
              \<lparr>svc = s1, log = log w @ [Acquire ten_seconds, Call ten_seconds (ReqConnect opts),
                                       Release ten_seconds]\<rparr>)
         | (Inr c, s1) \<Rightarrow>
             (case drv_Ping drv ten_seconds c s1 of
                (Some e, s2) \<Rightarrow>
                  ((None, Some e),
                   \<lparr>svc = s2, log = log w @ [Acquire ten_seconds, Call ten_seconds (ReqConnect opts),
                                            Call ten_seconds (ReqPing c), Release ten_seconds]\<rparr>)
              | (None, s2) \<Rightarrow>
                  ((Some \<lparr>DB = Database c dbName\<rparr>, None),
                   \<lparr>svc = s2, log = log w @ [Acquire ten_seconds, Call ten_seconds (ReqConnect opts),
                                            Call ten_seconds (ReqPing c), Release ten_seconds]\<rparr>)))"
  by (simp add: NewMongoHandler_def op_defs split: sum.splits option.splits prod.splits)

lemma CreateIndex_run:
  "CreateIndex drv db name model w =
     (let c = Collection db name; m = \<lparr>Keys = BsonD model\<rparr>;
          opts = \<lparr>MaxTime = Some (10 * Second)\<rparr>
      in case drv_CreateOne drv ten_seconds c m opts (svc w) of
           ((idx, err), s1) \<Rightarrow>
             (err, \<lparr>svc = s1, log = log w @ [Acquire ten_seconds,
                      Call ten_seconds (ReqCreateOne c m opts), Release ten_seconds]\<rparr>))"
  by (simp add: CreateIndex_def op_defs SetMaxTime_def options_CreateIndexes_def mult.commute
           split: prod.splits)

lemma SaveOne_run:
  "SaveOne drv db name doc w =
     (let c = Collection db name
      in case drv_InsertOne drv ten_seconds c doc (svc w) of
           (r, s1) \<Rightarrow>
             (r, \<lparr>svc = s1, log = log w @ [Acquire ten_seconds,
                    Call ten_seconds (ReqInsertOne c doc), Release ten_seconds]\<rparr>))"
  by (simp add: SaveOne_def op_defs split: prod.splits)

lemma to_interfaces_from:
  "i \<le> length docs \<Longrightarrow> length xs = length docs \<Longrightarrow>
   to_interfaces docs i xs = take i xs @ map Some (drop i docs)"
proof (induction docs i xs rule: to_interfaces.induct)
  case (1 docs i xs)
  show ?case
  proof (cases "i < length docs")
    case True
    have "take (i + 1) (xs[i := Some (docs ! i)]) = take i xs @ [Some (docs ! i)]"
      using True 1(3) by (simp add: take_Suc_conv_app_nth)
    moreover have "drop i docs = docs ! i # drop (i + 1) docs"
      using True by (simp add: Cons_nth_drop_Suc)
    ultimately show ?thesis
      using True 1 by (subst to_interfaces.simps) simp
  next
    case False
    with 1 show ?thesis by (subst to_interfaces.simps) simp
  qed
qed

lemma to_interfaces_all:
  "to_interfaces docs 0 (replicate (length docs) None) = map Some docs"
  by (simp add: to_interfaces_from)

lemma SaveMany_run:
  "SaveMany drv db name docs w =
     (let c = Collection db name
      in case drv_InsertMany drv ten_seconds c (map Some docs) (svc w) of
           (r, s1) \<Rightarrow>
             (r, \<lparr>svc = s1, log = log w @ [Acquire ten_seconds,
                    Call ten_seconds (ReqInsertMany c (map Some docs)), Release ten_seconds]\<rparr>))"
  by (simp add: SaveMany_def op_defs to_interfaces_all split: prod.splits)

lemma UpdateOne_run:
  "UpdateOne drv getID db name doc w =
     (let c = Collection db name; f = BsonD [(''_id'', OidV (getID doc))];
          u = BsonD [(''$set'', DocV doc)]
      in case drv_UpdateOne drv ten_seconds c f u (svc w) of
           (r, s1) \<Rightarrow>
             (r, \<lparr>svc = s1, log = log w @ [Acquire ten_seconds,
                    Call ten_seconds (ReqUpdateOne c f u), Release ten_seconds]\<rparr>))"
  by (simp add: UpdateOne_def op_defs split: prod.splits)

lemma FindOne_run:
  "FindOne drv zero db name f w =
     (let c = Collection db name
      in case drv_FindOne_Decode drv ten_seconds c (BsonD f) zero (svc w) of
           ((d, err), s1) \<Rightarrow>
             ((case err of Some e \<Rightarrow> (None, Some e) | None \<Rightarrow> (Some d, None)),
              \<lparr>svc = s1, log = log w @ [Acquire ten_seconds,
                 Call ten_seconds (ReqFindOneDecode c (BsonD f)), Release ten_seconds]\<rparr>))"
  by (simp add: FindOne_def op_defs split: prod.splits option.splits)

lemma DeleteOne_run:
  "DeleteOne drv db name i w =
     (let c = Collection db name; f = BsonM [(''_id'', OidV i)];
          opts = \<lparr>Hint = Some (BsonD [(''_id'', IntV 1)])\<rparr>
      in case drv_DeleteOne drv ten_seconds c f opts (svc w) of
           (r, s1) \<Rightarrow>
             (r, \<lparr>svc = s1, log = log w @ [Acquire ten_seconds,
                    Call ten_seconds (ReqDeleteOne c f opts), Release ten_seconds]\<rparr>))"
  by (simp add: DeleteOne_def op_defs SetHint_def options_Delete_def split: prod.splits)

lemma Find_run:
  "Find drv db name sortModel f skip limit w =
     (let c = Collection db name;
          opts = \<lparr>Sort = Some (BsonD sortModel), Skip = Some skip, Limit = Some limit\<rparr>
      in case drv_Find drv ten_seconds c (BsonD f) opts (svc w) of
           (Inl e, s1) \<Rightarrow>
             ((None, Some e),
              \<lparr>svc = s1, log = log w @ [Acquire ten_seconds,
                 Call ten_seconds (ReqFind c (BsonD f) opts), Release ten_seconds]\<rparr>)
         | (Inr cur, s1) \<Rightarrow>
             (case drv_Cursor_All drv ten_seconds cur [] s1 of
                ((rs, err), s2) \<Rightarrow>
                  ((case err of Some e \<Rightarrow> (None, Some e) | None \<Rightarrow> (Some rs, None)),
                   \<lparr>svc = snd (drv_Cursor_Close drv ten_seconds cur s2),
                    log = log w @ [Acquire ten_seconds,
                      Call ten_seconds (ReqFind c (BsonD f) opts),
                      Call ten_seconds (ReqCursorAll cur),
                      Call ten_seconds (ReqCursorClose cur), Release ten_seconds]\<rparr>)))"
  by (simp add: Find_def op_defs SetSort_def SetSkip_def SetLimit_def options_Find_def
           split: prod.splits option.splits sum.splits)

lemma Close_run:
  "Close drv h w =
     (let cl = Client_of (DB h)
      in case drv_Disconnect drv ten_seconds cl (svc w) of
           (err, s1) \<Rightarrow>
             (err, \<lparr>svc = s1, log = log w @ [Acquire ten_seconds,
                      Call ten_seconds (ReqDisconnect cl), Release ten_seconds]\<rparr>))"
  by (simp add: Close_def op_defs split: prod.splits)

lemma appended_log [simp]:
  "appended w \<lparr>svc = s, log = log w @ evs\<rparr> = evs"
  by (simp add: appended_def)

lemma mem_driver_calls [simp]:
  "drv_Connect mem_driver ctx opts s = (Inr (ClientRef 0), s)"
  "drv_Ping mem_driver ctx cl s = (None, s)"
  "drv_Disconnect mem_driver ctx cl s = (None, s)"
  "drv_CreateOne mem_driver ctx c m copts s = ((''index'', None), s)"
  "drv_InsertOne mem_driver ctx c d s
     = ((Some \<lparr>InsertedID = OidV (ID d)\<rparr>, None), mem_put s c (mem_docs s c @ [d]))"
  "drv_InsertMany mem_driver ctx = mem_InsertMany"
  "drv_UpdateOne mem_driver ctx = mem_UpdateOne"
  "drv_FindOne_Decode mem_driver ctx = mem_FindOne_Decode"
  "drv_DeleteOne mem_driver ctx c f dopts = mem_DeleteOne c f"
  "drv_Find mem_driver ctx = mem_Find"
  "drv_Cursor_All mem_driver ctx = mem_Cursor_All"
  "drv_Cursor_Close mem_driver ctx cur s = (None, s)"
  by (simp_all add: mem_driver_def)

lemma mem_driver_timing_out_calls [simp]:
  "drv_Connect mem_driver_timing_out ctx opts s = (Inl DeadlineExceeded, s)"
  "drv_FindOne_Decode mem_driver_timing_out ctx c f z s = ((z, Some DeadlineExceeded), s)"
  by (simp_all add: mem_driver_timing_out_def)

lemma mem_driver_no_ping_calls [simp]:
  "drv_Connect mem_driver_no_ping ctx opts s = (Inr (ClientRef 0), s)"
  "drv_Ping mem_driver_no_ping ctx cl s = (Some DeadlineExceeded, s)"
  by (simp_all add: mem_driver_no_ping_def mem_driver_def)

lemma mem_driver_write_timeout_calls [simp]:
  "drv_UpdateOne mem_driver_write_timeout ctx c f u s = ((None, Some DeadlineExceeded), s)"
  "drv_DeleteOne mem_driver_write_timeout ctx c f dopts s = ((None, Some DeadlineExceeded), s)"
  by (simp_all add: mem_driver_write_timeout_def)

lemma mem_driver_close_fails_calls [simp]:
  "drv_Find mem_driver_close_fails ctx = mem_Find"
  "drv_Cursor_All mem_driver_close_fails ctx = mem_Cursor_All"
  "drv_Cursor_Close mem_driver_close_fails ctx cur s = (Some CommandError, s)"
  by (simp_all add: mem_driver_close_fails_def mem_driver_def)

lemma mem_world_sel [simp]:
  "log (mem_world us) = []"
  "mem_next (svc (mem_world us)) = 0"
  "mem_cursors (svc (mem_world us)) n = []"
  "mem_docs (svc (mem_world us)) c = (if c = Collection users_db ''users'' then us else [])"
  by (simp_all add: mem_world_def mem_put_def mem_empty_def users_db_def)

lemmas run_simps = Let_def split_def one_scope_def each_call_once_def

lemma scope_NewMongoHandler:
  "one_scope (appended w (snd (NewMongoHandler drv dbName url w)))
   \<and> each_call_once (appended w (snd (NewMongoHandler drv dbName url w)))"
  by (simp add: NewMongoHandler_run run_simps split: sum.splits option.splits)

lemma scope_Find:
  "one_scope (appended w (snd (Find drv db name sortModel f skip limit w)))
   \<and> each_call_once (appended w (snd (Find drv db name sortModel f skip limit w)))"
  by (simp add: Find_run run_simps split: sum.splits option.splits)

lemma scope_single_call:
  "one_scope (appended w (snd (CreateIndex drv db name model w)))
   \<and> each_call_once (appended w (snd (CreateIndex drv db name model w)))"
  "one_scope (appended w (snd (SaveOne drv db name doc w)))
   \<and> each_call_once (appended w (snd (SaveOne drv db name doc w)))"
  "one_scope (appended w (snd (SaveMany drv db name docs w)))
   \<and> each_call_once (appended w (snd (SaveMany drv db name docs w)))"
  "one_scope (appended w (snd (UpdateOne drv getID db name doc w)))
   \<and> each_call_once (appended w (snd (UpdateOne drv getID db name doc w)))"
  "one_scope (appended w (snd (FindOne drv zero db name f w)))
   \<and> each_call_once (appended w (snd (FindOne drv zero db name f w)))"
  "one_scope (appended w (snd (DeleteOne drv db name i w)))
   \<and> each_call_once (appended w (snd (DeleteOne drv db name i w)))"
  "one_scope (appended w (snd (Close drv h w)))
   \<and> each_call_once (appended w (snd (Close drv h w)))"
  by (simp_all add: CreateIndex_run SaveOne_run SaveMany_run UpdateOne_run FindOne_run
        DeleteOne_run Close_run run_simps)

lemma NewMongoHandler_error:
  "snd (fst (NewMongoHandler drv dbName url w))
     = (case drv_Connect drv ten_seconds (ApplyURI options_Client url) (svc w) of
          (Inl e, s1) \<Rightarrow> Some e
        | (Inr c, s1) \<Rightarrow> fst (drv_Ping drv ten_seconds c s1))"
  by (simp add: NewMongoHandler_run Let_def split: sum.splits option.splits prod.splits)

lemma Find_error:
  "snd (fst (Find drv db name sortModel f skip limit w))
     = (case drv_Find drv ten_seconds (Collection db name) (BsonD f)
               \<lparr>Sort = Some (BsonD sortModel), Skip = Some skip, Limit = Some limit\<rparr> (svc w) of
          (Inl e, s1) \<Rightarrow> Some e
        | (Inr cur, s1) \<Rightarrow> snd (fst (drv_Cursor_All drv ten_seconds cur [] s1)))"
  by (simp add: Find_run Let_def split: sum.splits option.splits prod.splits)

section \<open>The in-memory service meets what is assumed of the service\<close>

lemma mem_put_docs [simp]:
  "mem_docs (mem_put s c us) c' = (if c' = c then us else mem_docs s c')"
  by (simp add: mem_put_def)





lemma mem_reports_no_match: "reports_no_match mem_driver mem_docs mem_matches"
  by (simp add: reports_no_match_def mem_FindOne_Decode_def filter_empty_conv)

lemma list_ex_mem_matches_id:
  "list_ex (mem_matches (BsonD [(''_id'', OidV i)])) us \<longleftrightarrow> (\<exists>x \<in> set us. GetID x = i)"
  "list_ex (mem_matches (BsonM [(''_id'', OidV i)])) us \<longleftrightarrow> (\<exists>x \<in> set us. GetID x = i)"
  by (simp_all add: list_ex_iff GetID_def)

lemma mem_update_misses_quietly: "update_misses_quietly mem_driver mem_docs GetID"
  by (simp add: update_misses_quietly_def list_ex_mem_matches_id)

lemma mem_delete_misses_quietly: "delete_misses_quietly mem_driver mem_docs GetID"
  by (simp add: delete_misses_quietly_def mem_DeleteOne_def list_ex_mem_matches_id)

lemma sorted_map_take_drop:
  fixes g :: "'a \<Rightarrow> 'b::linorder"
  shows "sorted (map g us) \<Longrightarrow> sorted (map g (take m us))"
    and "sorted (map g us) \<Longrightarrow> sorted (map g (drop m us))"
    and "sorted (rev (map g us)) \<Longrightarrow> sorted (rev (map g (take m us)))"
    and "sorted (rev (map g us)) \<Longrightarrow> sorted (rev (map g (drop m us)))"
proof -
  show "sorted (map g us) \<Longrightarrow> sorted (map g (take m us))"
    by (metis take_map sorted_wrt_take)
  show "sorted (map g us) \<Longrightarrow> sorted (map g (drop m us))"
    by (metis drop_map sorted_wrt_drop)
  have "rev (map g (take m us)) = drop (length us - m) (rev (map g us))"
    by (simp add: rev_map rev_take drop_map)
  then show "sorted (rev (map g us)) \<Longrightarrow> sorted (rev (map g (take m us)))"
    by (simp add: sorted_wrt_drop)
  have "rev (map g (drop m us)) = take (length us - m) (rev (map g us))"
    by (simp add: rev_map rev_drop take_map)
  then show "sorted (rev (map g us)) \<Longrightarrow> sorted (rev (map g (drop m us)))"
    by (simp add: sorted_wrt_take)
qed

lemma mem_ordered_take: "mem_ordered so us \<Longrightarrow> mem_ordered so (take m us)"
  by (induction so us rule: mem_ordered.induct)
     (simp_all add: sorted_map_take_drop split: if_splits)

lemma mem_ordered_drop: "mem_ordered so us \<Longrightarrow> mem_ordered so (drop m us)"
  by (induction so us rule: mem_ordered.induct)
     (simp_all add: sorted_map_take_drop split: if_splits)

lemma mem_ordered_sort: "mem_ordered so (mem_sort so us)"
  by (induction so us rule: mem_sort.induct) (simp_all add: rev_map)

lemma mem_select_ordered:
  "mem_ordered so (mem_select \<lparr>Sort = Some so, Skip = Some k, Limit = Some n\<rparr> us)"
  by (simp add: mem_select_def mem_limit_def Let_def mem_ordered_take mem_ordered_drop mem_ordered_sort)

lemma mem_select_length:
  "0 < n \<Longrightarrow> int (length (mem_select \<lparr>Sort = Some so, Skip = Some k, Limit = Some n\<rparr> us)) \<le> n"
  by (simp add: mem_select_def mem_limit_def Let_def)

lemma mem_honours_limit_and_sort: "honours_limit_and_sort mem_driver mem_ordered"
  unfolding honours_limit_and_sort_def
proof (intro allI impI, elim conjE)
  fix ctx :: "context" and c and f so :: "User bson_doc" and k n :: int
    and s s1 s2 :: mem_service and cur and rs0 rs :: "User list"
  assume fnd: "drv_Find mem_driver ctx c f \<lparr>Sort = Some so, Skip = Some k, Limit = Some n\<rparr> s
                 = (Inr cur, s1)"
    and al: "drv_Cursor_All mem_driver ctx cur rs0 s1 = ((rs, None), s2)"
  let ?sel = "mem_select \<lparr>Sort = Some so, Skip = Some k, Limit = Some n\<rparr>
                (filter (mem_matches f) (mem_docs s c))"
  from fnd have "cur = CursorRef (mem_next s)" and "mem_cursors s1 (mem_next s) = ?sel"
    by (auto simp: mem_Find_def split: if_splits)
  with al have "rs = ?sel"
    by simp
  then show "mem_ordered so rs \<and> (0 < n \<longrightarrow> int (length rs) \<le> n)"
    by (simp add: mem_select_ordered mem_select_length)
qed

lemma john_before_jane [simp]:
  "(1 :: objectID) \<le> 2" "\<not> (2 :: objectID) \<le> 1"
  "ID john \<le> ID jane" "\<not> ID jane \<le> ID john" "john \<noteq> jane" "jane \<noteq> john"
  by (simp_all add: john_def jane_def word_le_nat_alt)

lemma john_facts [simp]:
  "Name john = ''John Doe''" "ID john = 1" "Name jane = ''Jane Roe''" "ID jane = 2"
  "Name john_doe = ''John Doe''" "ID john_doe = 0"
  by (simp_all add: john_def jane_def john_doe_def)

section \<open>Properties of the package\<close>




text \<open>
  C2, as amended: for every document, \<^verbatim>\<open>UpdateOne\<close> makes one driver call,
  \<^verbatim>\<open>UpdateOne\<close> with the filter \<^verbatim>\<open>{_id: doc.GetID()}\<close>, the update
  \<^verbatim>\<open>{$set: doc}\<close> (the whole document) and no option; it returns the result and the
  error of that call as they are and leaves the service as the call left it. So an
  error that the driver reports is returned, whether a stored document has the
  identifier or not. When no stored document has the identifier, on a service that
  acknowledges such an update without matching or storing anything
  (\<open>update_misses_quietly\<close>), \<^verbatim>\<open>UpdateOne\<close> returns no error and a result with zero
  matched, and the collections hold what they held.
\<close>

theorem UpdateOne_filter_set_and_answer:
  assumes ans: "drv_UpdateOne drv ten_seconds (Collection db name)
                  (BsonD [(''_id'', OidV (getID d))]) (BsonD [(''$set'', DocV d)]) (svc w)
                  = ((dres, derr), s1)"
      and run: "UpdateOne drv getID db name d w = ((res, err), w')"
  shows "calls_of (appended w w')
           = [ReqUpdateOne (Collection db name) (BsonD [(''_id'', OidV (getID d))])
                (BsonD [(''$set'', DocV d)])]
         \<and> res = dres \<and> err = derr \<and> svc w' = s1
         \<and> (update_misses_quietly drv stored getID
              \<and> (\<forall>x \<in> set (stored (svc w) (Collection db name)). getID x \<noteq> getID d)
             \<longrightarrow> err = None \<and> (\<exists>r. res = Some r \<and> MatchedCount r = 0)
                 \<and> stored (svc w') = stored (svc w))"
proof -
  have core: "calls_of (appended w w')
           = [ReqUpdateOne (Collection db name) (BsonD [(''_id'', OidV (getID d))])
                (BsonD [(''$set'', DocV d)])]"
    "res = dres" "err = derr" "svc w' = s1"
    using ans run by (auto simp: UpdateOne_run Let_def)
  have "derr = None \<and> (\<exists>r. dres = Some r \<and> MatchedCount r = 0) \<and> stored s1 = stored (svc w)"
    if "update_misses_quietly drv stored getID"
      and "\<forall>x \<in> set (stored (svc w) (Collection db name)). getID x \<noteq> getID d"
  proof -
    from that obtain r s' where
      "drv_UpdateOne drv ten_seconds (Collection db name) (BsonD [(''_id'', OidV (getID d))])
         (BsonD [(''$set'', DocV d)]) (svc w) = ((Some r, None), s')"
      and "MatchedCount r = 0" and "stored s' = stored (svc w)"
      unfolding update_misses_quietly_def by blast
    with ans show ?thesis
      by auto
  qed
  with core show ?thesis
    by blast
qed

theorem UpdateOne_witness:
  "fst (UpdateOne mem_driver GetID users_db ''users'' john (mem_world [jane]))
     = (Some \<lparr>MatchedCount = 0, ModifiedCount = 0, UpsertedCount = 0, UpsertedID = None\<rparr>, None)
   \<and> mem_docs (svc (snd (UpdateOne mem_driver GetID users_db ''users'' john (mem_world [jane]))))
         (Collection users_db ''users'') = [jane]
   \<and> fst (UpdateOne mem_driver GetID users_db ''users'' \<lparr>ID = 2, Name = ''Jane Doe''\<rparr>
            (mem_world [john, jane]))
     = (Some \<lparr>MatchedCount = 1, ModifiedCount = 1, UpsertedCount = 0, UpsertedID = None\<rparr>, None)
   \<and> mem_docs (svc (snd (UpdateOne mem_driver GetID users_db ''users''
                             \<lparr>ID = 2, Name = ''Jane Doe''\<rparr> (mem_world [john, jane]))))
         (Collection users_db ''users'') = [john, \<lparr>ID = 2, Name = ''Jane Doe''\<rparr>]"
proof -
  let ?c = "Collection users_db ''users''"
  let ?j = "\<lparr>ID = 2, Name = ''Jane Doe''\<rparr> :: User"
  obtain res err w' where run:
    "UpdateOne mem_driver GetID users_db ''users'' john (mem_world [jane]) = ((res, err), w')"
    by (metis surj_pair)
  have ans: "drv_UpdateOne mem_driver ten_seconds ?c (BsonD [(''_id'', OidV (GetID john))])
               (BsonD [(''$set'', DocV john)]) (svc (mem_world [jane]))
             = ((Some \<lparr>MatchedCount = 0, ModifiedCount = 0, UpsertedCount = 0,
                       UpsertedID = None\<rparr>, None), svc (mem_world [jane]))"
    by (simp add: GetID_def)
  note a = UpdateOne_filter_set_and_answer [OF ans run]
  obtain res2 err2 w2 where run2:
    "UpdateOne mem_driver GetID users_db ''users'' ?j (mem_world [john, jane])
       = ((res2, err2), w2)"
    by (metis surj_pair)
  have ans2: "drv_UpdateOne mem_driver ten_seconds ?c (BsonD [(''_id'', OidV (GetID ?j))])
               (BsonD [(''$set'', DocV ?j)]) (svc (mem_world [john, jane]))
             = ((Some \<lparr>MatchedCount = 1, ModifiedCount = 1, UpsertedCount = 0,
                       UpsertedID = None\<rparr>, None),
                mem_put (svc (mem_world [john, jane])) ?c [john, ?j])"
    by (simp add: GetID_def)
  note b = UpdateOne_filter_set_and_answer [OF ans2 run2]
  have "err = None \<and> (\<exists>r. res = Some r \<and> MatchedCount r = 0)
        \<and> mem_docs (svc w') = mem_docs (svc (mem_world [jane]))"
    using a [where stored = mem_docs] mem_update_misses_quietly
    by (simp add: GetID_def)
  with a b run run2 show ?thesis
    by simp
qed

text \<open>
  No stored document has the identifier of \<open>john\<close>, the service does not answer in
  time, and \<^verbatim>\<open>UpdateOne\<close> returns the error.
\<close>

theorem UpdateOne_miss_counterexample:
  "GetID jane \<noteq> GetID john
   \<and> fst (UpdateOne mem_driver_write_timeout GetID users_db ''users'' john (mem_world [jane]))
       = (None, Some DeadlineExceeded)"
  by (simp add: UpdateOne_run Let_def GetID_def)



text \<open>
  C4: what any of the nine functions appends to the log starts with the acquisition of a
  context of ten seconds made from the background context, ends with its release, on
  the error paths as on the others, and holds between the two only driver calls under
  that context. No function has a context, a deadline or a cancellation among its
  parameters: the context is the same for every argument.
\<close>

theorem every_operation_in_its_own_ten_second_scope:
  "one_scope (appended w (snd (NewMongoHandler drv dbName url w)))
   \<and> one_scope (appended w (snd (CreateIndex drv db name model w)))
   \<and> one_scope (appended w (snd (SaveOne drv db name doc w)))
   \<and> one_scope (appended w (snd (SaveMany drv db name docs w)))
   \<and> one_scope (appended w (snd (UpdateOne drv getID db name doc w)))
   \<and> one_scope (appended w (snd (FindOne drv zero db name f w)))
   \<and> one_scope (appended w (snd (Find drv db name sortModel f skip limit w)))
   \<and> one_scope (appended w (snd (DeleteOne drv db name i w)))
   \<and> one_scope (appended w (snd (Close drv h w)))"
  by (simp add: scope_NewMongoHandler scope_Find scope_single_call)

theorem every_operation_scope_witness:
  "appended (mem_world [jane]) (snd (Find mem_driver users_db ''users'' [(''_id'', IntV 1)] [] 0 10
                                  (mem_world [jane])))
     = [Acquire ten_seconds,
        Call ten_seconds (ReqFind (Collection users_db ''users'') (BsonD [])
          \<lparr>Sort = Some (BsonD [(''_id'', IntV 1)]), Skip = Some 0, Limit = Some 10\<rparr>),
        Call ten_seconds (ReqCursorAll (CursorRef 0)),
        Call ten_seconds (ReqCursorClose (CursorRef 0)),
        Release ten_seconds]
   \<and> one_scope (appended (mem_world [jane])
        (snd (Find mem_driver users_db ''users'' [(''_id'', IntV 1)] [] 0 10 (mem_world [jane]))))
   \<and> one_scope (appended (mem_world [])
        (snd (NewMongoHandler mem_driver_timing_out ''test_db'' ''mongodb://nowhere:27017''
                (mem_world []))))"
proof -
  have a: "one_scope (appended (mem_world [jane])
        (snd (Find mem_driver users_db ''users'' [(''_id'', IntV 1)] [] 0 10 (mem_world [jane]))))"
    using every_operation_in_its_own_ten_second_scope
            [where w = "mem_world [jane]" and drv = mem_driver and db = users_db
               and name = "''users''" and sortModel = "[(''_id'', IntV 1)]" and f = "[]"
               and skip = 0 and limit = 10]
    by blast
  have b: "one_scope (appended (mem_world [])
        (snd (NewMongoHandler mem_driver_timing_out ''test_db'' ''mongodb://nowhere:27017''
                (mem_world []))))"
    using every_operation_in_its_own_ten_second_scope
            [where w = "mem_world []" and drv = mem_driver_timing_out and dbName = "''test_db''"
               and url = "''mongodb://nowhere:27017''"]
    by blast
  have c: "appended (mem_world [jane])
             (snd (Find mem_driver users_db ''users'' [(''_id'', IntV 1)] [] 0 10
                     (mem_world [jane])))
     = [Acquire ten_seconds,
        Call ten_seconds (ReqFind (Collection users_db ''users'') (BsonD [])
          \<lparr>Sort = Some (BsonD [(''_id'', IntV 1)]), Skip = Some 0, Limit = Some 10\<rparr>),
        Call ten_seconds (ReqCursorAll (CursorRef 0)),
        Call ten_seconds (ReqCursorClose (CursorRef 0)),
        Release ten_seconds]"
    by (simp add: Find_run Let_def mem_Find_def appended_def)
  show ?thesis
    using a b c by blast
qed

text \<open>
  C5, as amended: \<^verbatim>\<open>Find\<close> returns the whole sequence that \<^verbatim>\<open>cursor.All\<close> decoded,
  after closing the cursor; the sort document, the skip and the limit reach the driver
  as given. So, on a service that honours them, the sequence is in the order of
  \<^verbatim>\<open>sortModel\<close> and, when the limit \<open>n\<close> is positive, has at most \<open>n\<close>
  documents. (With the limit 0, which asks the service for no limit, or a negative
  one, the number returned is not bounded by the limit: see the counterexample.)
\<close>

theorem Find_materialises_and_passes_sort_and_limit:
  assumes svc_ok: "honours_limit_and_sort drv ordered"
      and run: "Find drv db name sortModel f skip n w = ((Some rs, None), w')"
  shows "(\<exists>cur s1 s2.
            drv_Find drv ten_seconds (Collection db name) (BsonD f)
              \<lparr>Sort = Some (BsonD sortModel), Skip = Some skip, Limit = Some n\<rparr> (svc w)
              = (Inr cur, s1)
            \<and> drv_Cursor_All drv ten_seconds cur [] s1 = ((rs, None), s2)
            \<and> calls_of (appended w w')
                = [ReqFind (Collection db name) (BsonD f)
                     \<lparr>Sort = Some (BsonD sortModel), Skip = Some skip, Limit = Some n\<rparr>,
                   ReqCursorAll cur, ReqCursorClose cur])
         \<and> ordered (BsonD sortModel) rs
         \<and> (0 < n \<longrightarrow> int (length rs) \<le> n)"
proof -
  let ?c = "Collection db name"
  let ?opts = "\<lparr>Sort = Some (BsonD sortModel), Skip = Some skip, Limit = Some n\<rparr>"
  obtain rf s1 where fnd: "drv_Find drv ten_seconds ?c (BsonD f) ?opts (svc w) = (rf, s1)"
    by (metis surj_pair)
  with run obtain cur where cur: "rf = Inr cur"
    by (cases rf) (auto simp: Find_run Let_def)
  obtain rs' e s2 where al: "drv_Cursor_All drv ten_seconds cur [] s1 = ((rs', e), s2)"
    by (metis surj_pair)
  with run fnd cur have res: "rs' = rs" "e = None"
    and calls: "calls_of (appended w w')
                  = [ReqFind ?c (BsonD f) ?opts, ReqCursorAll cur, ReqCursorClose cur]"
    by (auto simp: Find_run Let_def split: option.splits)
  from svc_ok fnd cur al res have "ordered (BsonD sortModel) rs \<and> (0 < n \<longrightarrow> int (length rs) \<le> n)"
    unfolding honours_limit_and_sort_def by blast
  with fnd cur al res calls show ?thesis
    by blast
qed

theorem Find_witness:
  "fst (Find mem_driver users_db ''users'' [(''_id'', IntV 1)] [] 0 1 (mem_world [jane, john]))
     = (Some [john], None)
   \<and> mem_ordered (BsonD [(''_id'', IntV 1)]) [john]
   \<and> int (length [john]) \<le> 1"
proof -
  have "\<exists>w'. Find mem_driver users_db ''users'' [(''_id'', IntV 1)] [] 0 1
               (mem_world [jane, john]) = ((Some [john], None), w')"
    by (simp add: Find_run Let_def mem_Find_def mem_select_def mem_limit_def)
  then obtain w' where run:
    "Find mem_driver users_db ''users'' [(''_id'', IntV 1)] [] 0 1 (mem_world [jane, john])
       = ((Some [john], None), w')"
    by blast
  from Find_materialises_and_passes_sort_and_limit [OF mem_honours_limit_and_sort run]
  have "mem_ordered (BsonD [(''_id'', IntV 1)]) [john] \<and> int (length [john]) \<le> 1"
    by simp
  with run show ?thesis
    by simp
qed

text \<open>
  With the limit 0 the two stored users both come back, and with the limit \<open>-1\<close> one
  does: in neither case at most as many documents as the limit says.
\<close>

theorem Find_limit_counterexample:
  "fst (Find mem_driver users_db ''users'' [(''_id'', IntV 1)] [] 0 0 (mem_world [jane, john]))
     = (Some [john, jane], None)
   \<and> \<not> int (length [john, jane]) \<le> 0
   \<and> fst (Find mem_driver users_db ''users'' [(''_id'', IntV 1)] [] 0 (- 1)
            (mem_world [jane, john]))
     = (Some [john], None)
   \<and> \<not> int (length [john]) \<le> - 1"
  by (simp add: Find_run Let_def mem_Find_def mem_select_def mem_limit_def)

text \<open>
  C6, as amended: for every identifier, \<^verbatim>\<open>DeleteOne\<close> makes one driver call,
  \<^verbatim>\<open>DeleteOne\<close> with the filter \<^verbatim>\<open>{_id: id}\<close> and the hint \<^verbatim>\<open>{_id: 1}\<close>; it
  returns the result and the error of that call as they are and leaves the service as
  the call left it. So an error that the driver reports is returned, whether a stored
  document has the identifier or not. When no stored document has the identifier, on a
  service that acknowledges such a delete with nothing deleted
  (\<open>delete_misses_quietly\<close>), \<^verbatim>\<open>DeleteOne\<close> returns no error and a result with zero
  deleted.
\<close>

theorem DeleteOne_by_identifier_with_hint_and_answer:
  assumes ans: "drv_DeleteOne drv ten_seconds (Collection db name) (BsonM [(''_id'', OidV i)])
                  \<lparr>Hint = Some (BsonD [(''_id'', IntV 1)])\<rparr> (svc w) = ((dres, derr), s1)"
      and run: "DeleteOne drv db name i w = ((res, err), w')"
  shows "calls_of (appended w w')
           = [ReqDeleteOne (Collection db name) (BsonM [(''_id'', OidV i)])
                \<lparr>Hint = Some (BsonD [(''_id'', IntV 1)])\<rparr>]
         \<and> res = dres \<and> err = derr \<and> svc w' = s1
         \<and> (delete_misses_quietly drv stored getID
              \<and> (\<forall>x \<in> set (stored (svc w) (Collection db name)). getID x \<noteq> i)
             \<longrightarrow> err = None \<and> (\<exists>r. res = Some r \<and> DeletedCount r = 0))"
proof -
  have core: "calls_of (appended w w')
           = [ReqDeleteOne (Collection db name) (BsonM [(''_id'', OidV i)])
                \<lparr>Hint = Some (BsonD [(''_id'', IntV 1)])\<rparr>]"
    "res = dres" "err = derr" "svc w' = s1"
    using ans run by (auto simp: DeleteOne_run Let_def)
  have "derr = None \<and> (\<exists>r. dres = Some r \<and> DeletedCount r = 0)"
    if "delete_misses_quietly drv stored getID"
      and "\<forall>x \<in> set (stored (svc w) (Collection db name)). getID x \<noteq> i"
  proof -
    from that obtain r s' where
      "drv_DeleteOne drv ten_seconds (Collection db name) (BsonM [(''_id'', OidV i)])
         \<lparr>Hint = Some (BsonD [(''_id'', IntV 1)])\<rparr> (svc w) = ((Some r, None), s')"
      and "DeletedCount r = 0"
      unfolding delete_misses_quietly_def by blast
    with ans show ?thesis
      by auto
  qed
  with core show ?thesis
    by blast
qed

theorem DeleteOne_witness:
  "fst (DeleteOne mem_driver users_db ''users'' 7 (mem_world [jane, john]))
     = (Some \<lparr>DeletedCount = 0\<rparr>, None)
   \<and> mem_docs (svc (snd (DeleteOne mem_driver users_db ''users'' 7 (mem_world [jane, john]))))
         (Collection users_db ''users'') = [jane, john]
   \<and> fst (DeleteOne mem_driver users_db ''users'' 1 (mem_world [jane, john]))
     = (Some \<lparr>DeletedCount = 1\<rparr>, None)
   \<and> mem_docs (svc (snd (DeleteOne mem_driver users_db ''users'' 1 (mem_world [jane, john]))))
         (Collection users_db ''users'') = [jane]"
proof -
  let ?c = "Collection users_db ''users''"
  let ?h = "\<lparr>Hint = Some (BsonD [(''_id'', IntV 1)])\<rparr> :: User delete_options"
  obtain res err w' where run:
    "DeleteOne mem_driver users_db ''users'' 7 (mem_world [jane, john]) = ((res, err), w')"
    by (metis surj_pair)
  have ans: "drv_DeleteOne mem_driver ten_seconds ?c (BsonM [(''_id'', OidV 7)]) ?h
               (svc (mem_world [jane, john]))
             = ((Some \<lparr>DeletedCount = 0\<rparr>, None), svc (mem_world [jane, john]))"
    by (simp add: mem_DeleteOne_def)
  note a = DeleteOne_by_identifier_with_hint_and_answer [OF ans run]
  obtain res2 err2 w2 where run2:
    "DeleteOne mem_driver users_db ''users'' 1 (mem_world [jane, john]) = ((res2, err2), w2)"
    by (metis surj_pair)
  have ans2: "drv_DeleteOne mem_driver ten_seconds ?c (BsonM [(''_id'', OidV 1)]) ?h
               (svc (mem_world [jane, john]))
             = ((Some \<lparr>DeletedCount = 1\<rparr>, None),
                mem_put (svc (mem_world [jane, john])) ?c [jane])"
    by (simp add: mem_DeleteOne_def)
  note b = DeleteOne_by_identifier_with_hint_and_answer [OF ans2 run2]
  have "err = None \<and> (\<exists>r. res = Some r \<and> DeletedCount r = 0)"
    using a [where stored = mem_docs and getID = GetID] mem_delete_misses_quietly
    by (simp add: GetID_def)
  with a b run run2 show ?thesis
    by simp
qed

text \<open>
  No stored document has the identifier 7, the service does not answer in time, and
  \<^verbatim>\<open>DeleteOne\<close> returns the error.
\<close>

theorem DeleteOne_miss_counterexample:
  "GetID jane \<noteq> 7 \<and> GetID john \<noteq> 7
   \<and> fst (DeleteOne mem_driver_write_timeout users_db ''users'' 7 (mem_world [jane, john]))
       = (None, Some DeadlineExceeded)"
  by (simp add: DeleteOne_run Let_def GetID_def)



text \<open>
  C8: whatever error the driver reports for the find and decode, the one for no matching
  document like any other, \<^verbatim>\<open>FindOne\<close> returns that same error value and a nil
  document, after the same three events; nothing at this layer tells one error from
  another. An error is returned only together with a nil document. So when no stored
  document matches the filter, on a service that reports this as an error,
  \<^verbatim>\<open>FindOne\<close> returns an error and a nil document.
\<close>

theorem FindOne_error_is_the_drivers:
  assumes dec: "drv_FindOne_Decode drv ten_seconds (Collection db name) (BsonD f) zero (svc w)
                  = ((d, derr), s1)"
      and run: "FindOne drv zero db name f w = ((res, err), w')"
  shows "err = derr
         \<and> (case derr of Some e \<Rightarrow> res = None | None \<Rightarrow> res = Some d)
         \<and> (err \<noteq> None \<longrightarrow> res = None)
         \<and> appended w w' = [Acquire ten_seconds,
               Call ten_seconds (ReqFindOneDecode (Collection db name) (BsonD f)),
               Release ten_seconds]
         \<and> (reports_no_match drv stored matches
              \<and> (\<forall>x \<in> set (stored (svc w) (Collection db name)). \<not> matches (BsonD f) x)
             \<longrightarrow> err \<noteq> None \<and> res = None)"
proof -
  have main: "err = derr" "case derr of Some e \<Rightarrow> res = None | None \<Rightarrow> res = Some d"
    "appended w w' = [Acquire ten_seconds,
               Call ten_seconds (ReqFindOneDecode (Collection db name) (BsonD f)),
               Release ten_seconds]"
    using dec run by (auto simp: FindOne_run Let_def split: option.splits)
  have nil: "err \<noteq> None \<longrightarrow> res = None"
    using main by (auto split: option.splits)
  have "derr \<noteq> None"
    if "reports_no_match drv stored matches"
      and "\<forall>x \<in> set (stored (svc w) (Collection db name)). \<not> matches (BsonD f) x"
  proof -
    from that have "snd (fst (drv_FindOne_Decode drv ten_seconds (Collection db name)
                               (BsonD f) zero (svc w))) \<noteq> None"
      unfolding reports_no_match_def by blast
    with dec show ?thesis
      by simp
  qed
  with main nil show ?thesis
    by blast
qed

theorem FindOne_error_witness:
  "fst (FindOne mem_driver \<lparr>ID = 0, Name = []\<rparr> users_db ''users'' [(''name'', StrV ''John Doe'')]
          (mem_world [jane])) = (None, Some ErrNoDocuments)
   \<and> fst (FindOne mem_driver_timing_out \<lparr>ID = 0, Name = []\<rparr> users_db ''users''
          [(''name'', StrV ''John Doe'')] (mem_world [john])) = (None, Some DeadlineExceeded)
   \<and> fst (FindOne mem_driver \<lparr>ID = 0, Name = []\<rparr> users_db ''users'' [(''name'', StrV ''John Doe'')]
          (mem_world [jane, john])) = (Some john, None)"
proof -
  let ?z = "\<lparr>ID = 0, Name = []\<rparr> :: User"
  let ?f = "[(''name'', StrV ''John Doe'')] :: User bson_D"
  let ?c = "Collection users_db ''users''"
  have d1: "drv_FindOne_Decode mem_driver ten_seconds ?c (BsonD ?f) ?z (svc (mem_world [jane]))
              = ((?z, Some ErrNoDocuments), svc (mem_world [jane]))"
    by (simp add: mem_FindOne_Decode_def mem_world_def mem_put_def users_db_def jane_def)
  have d3: "drv_FindOne_Decode mem_driver ten_seconds ?c (BsonD ?f) ?z
              (svc (mem_world [jane, john])) = ((john, None), svc (mem_world [jane, john]))"
    by (simp add: mem_FindOne_Decode_def mem_world_def mem_put_def users_db_def jane_def
          john_def)
  obtain x1 e1 w1 where r1: "FindOne mem_driver ?z users_db ''users'' ?f (mem_world [jane])
                               = ((x1, e1), w1)"
    by (metis surj_pair)
  obtain x2 e2 w2 where r2: "FindOne mem_driver_timing_out ?z users_db ''users'' ?f
                               (mem_world [john]) = ((x2, e2), w2)"
    by (metis surj_pair)
  obtain x3 e3 w3 where r3: "FindOne mem_driver ?z users_db ''users'' ?f (mem_world [jane, john])
                               = ((x3, e3), w3)"
    by (metis surj_pair)
  have "x1 = None \<and> e1 = Some ErrNoDocuments"
    using FindOne_error_is_the_drivers [OF d1 r1] by simp
  moreover have "x2 = None \<and> e2 = Some DeadlineExceeded"
    using FindOne_error_is_the_drivers [OF _ r2, of ?z "Some DeadlineExceeded"
            "svc (mem_world [john])"] by simp
  moreover have "x3 = Some john \<and> e3 = None"
    using FindOne_error_is_the_drivers [OF d3 r3] by simp
  ultimately show ?thesis
    using r1 r2 r3 by simp
qed

text \<open>
  C9, as amended: no function makes the same driver call twice, and the error a function
  returns is the error value its driver call reported, unchanged: of \<^verbatim>\<open>Connect\<close> or
  else of \<^verbatim>\<open>Ping\<close> for \<^verbatim>\<open>NewMongoHandler\<close>, of \<^verbatim>\<open>Find\<close> or else of
  \<^verbatim>\<open>All\<close> for \<^verbatim>\<open>Find\<close>, of the one call for the others, which return the driver's
  whole answer. The one driver answer that is not returned is that of the deferred
  \<^verbatim>\<open>cursor.Close\<close> of \<^verbatim>\<open>Find\<close>: whatever \<^verbatim>\<open>Close\<close> reports, \<^verbatim>\<open>Find\<close> returns
  what it returns without it.
\<close>

theorem no_retry_and_errors_as_reported:
  "each_call_once (appended w (snd (NewMongoHandler drv dbName url w)))
   \<and> each_call_once (appended w (snd (CreateIndex drv db name model w)))
   \<and> each_call_once (appended w (snd (SaveOne drv db name doc w)))
   \<and> each_call_once (appended w (snd (SaveMany drv db name docs w)))
   \<and> each_call_once (appended w (snd (UpdateOne drv getID db name doc w)))
   \<and> each_call_once (appended w (snd (FindOne drv zero db name f w)))
   \<and> each_call_once (appended w (snd (Find drv db name sortModel f skip limit w)))
   \<and> each_call_once (appended w (snd (DeleteOne drv db name i w)))
   \<and> each_call_once (appended w (snd (Close drv h w)))
   \<and> snd (fst (NewMongoHandler drv dbName url w))
       = (case drv_Connect drv ten_seconds (ApplyURI options_Client url) (svc w) of
            (Inl e, s1) \<Rightarrow> Some e
          | (Inr c, s1) \<Rightarrow> fst (drv_Ping drv ten_seconds c s1))
   \<and> fst (CreateIndex drv db name model w)
       = snd (fst (drv_CreateOne drv ten_seconds (Collection db name) \<lparr>Keys = BsonD model\<rparr>
                     \<lparr>MaxTime = Some (10 * Second)\<rparr> (svc w)))
   \<and> fst (SaveOne drv db name doc w)
       = fst (drv_InsertOne drv ten_seconds (Collection db name) doc (svc w))
   \<and> fst (SaveMany drv db name docs w)
       = fst (drv_InsertMany drv ten_seconds (Collection db name) (map Some docs) (svc w))
   \<and> fst (UpdateOne drv getID db name doc w)
       = fst (drv_UpdateOne drv ten_seconds (Collection db name)
                (BsonD [(''_id'', OidV (getID doc))]) (BsonD [(''$set'', DocV doc)]) (svc w))
   \<and> snd (fst (FindOne drv zero db name f w))
       = snd (fst (drv_FindOne_Decode drv ten_seconds (Collection db name) (BsonD f) zero (svc w)))
   \<and> snd (fst (Find drv db name sortModel f skip limit w))
       = (case drv_Find drv ten_seconds (Collection db name) (BsonD f)
                 \<lparr>Sort = Some (BsonD sortModel), Skip = Some skip, Limit = Some limit\<rparr> (svc w) of
            (Inl e, s1) \<Rightarrow> Some e
          | (Inr cur, s1) \<Rightarrow> snd (fst (drv_Cursor_All drv ten_seconds cur [] s1)))
   \<and> fst (Find (drv\<lparr>drv_Cursor_Close := close\<rparr>) db name sortModel f skip limit w)
       = fst (Find drv db name sortModel f skip limit w)
   \<and> fst (DeleteOne drv db name i w)
       = fst (drv_DeleteOne drv ten_seconds (Collection db name) (BsonM [(''_id'', OidV i)])
                \<lparr>Hint = Some (BsonD [(''_id'', IntV 1)])\<rparr> (svc w))
   \<and> fst (Close drv h w) = fst (drv_Disconnect drv ten_seconds (Client_of (DB h)) (svc w))"
proof -
  have "fst (CreateIndex drv db name model w)
       = snd (fst (drv_CreateOne drv ten_seconds (Collection db name) \<lparr>Keys = BsonD model\<rparr>
                     \<lparr>MaxTime = Some (10 * Second)\<rparr> (svc w)))"
    by (simp add: CreateIndex_run Let_def split_def)
  moreover have "fst (SaveOne drv db name doc w)
       = fst (drv_InsertOne drv ten_seconds (Collection db name) doc (svc w))"
    by (simp add: SaveOne_run Let_def split_def)
  moreover have "fst (SaveMany drv db name docs w)
       = fst (drv_InsertMany drv ten_seconds (Collection db name) (map Some docs) (svc w))"
    by (simp add: SaveMany_run Let_def split_def)
  moreover have "fst (UpdateOne drv getID db name doc w)
       = fst (drv_UpdateOne drv ten_seconds (Collection db name)
                (BsonD [(''_id'', OidV (getID doc))]) (BsonD [(''$set'', DocV doc)]) (svc w))"
    by (simp add: UpdateOne_run Let_def split_def)
  moreover have "snd (fst (FindOne drv zero db name f w))
       = snd (fst (drv_FindOne_Decode drv ten_seconds (Collection db name) (BsonD f) zero (svc w)))"
    by (simp add: FindOne_run Let_def split_def split: option.splits)
  moreover have "fst (DeleteOne drv db name i w)
       = fst (drv_DeleteOne drv ten_seconds (Collection db name) (BsonM [(''_id'', OidV i)])
                \<lparr>Hint = Some (BsonD [(''_id'', IntV 1)])\<rparr> (svc w))"
    by (simp add: DeleteOne_run Let_def split_def)
  moreover have "fst (Close drv h w)
       = fst (drv_Disconnect drv ten_seconds (Client_of (DB h)) (svc w))"
    by (simp add: Close_run Let_def split_def)
  moreover have "fst (Find (drv\<lparr>drv_Cursor_Close := close\<rparr>) db name sortModel f skip limit w)
       = fst (Find drv db name sortModel f skip limit w)"
    by (simp add: Find_run Let_def split: sum.splits prod.splits)
  ultimately show ?thesis
    by (simp add: scope_NewMongoHandler scope_Find scope_single_call NewMongoHandler_error
          Find_error)
qed

theorem no_retry_witness:
  "fst (SaveMany mem_driver users_db ''users'' [] (mem_world [jane])) = (None, Some ErrEmptySlice)
   \<and> each_call_once (appended (mem_world [jane])
         (snd (Find mem_driver users_db ''users'' [] [] (- 1) 10 (mem_world [jane]))))
   \<and> snd (fst (Find mem_driver users_db ''users'' [] [] (- 1) 10 (mem_world [jane])))
       = Some CommandError
   \<and> snd (fst (FindOne mem_driver_timing_out \<lparr>ID = 0, Name = []\<rparr> users_db ''users'' []
                  (mem_world [jane]))) = Some DeadlineExceeded"
proof -
  note inst = no_retry_and_errors_as_reported
                [where drv = mem_driver and w = "mem_world [jane]" and db = users_db
                   and name = "''users''" and docs = "[]" and sortModel = "[]" and f = "[]"
                   and skip = "- 1" and limit = 10]
  note inst' = no_retry_and_errors_as_reported
                [where drv = mem_driver_timing_out and w = "mem_world [jane]"
                   and db = users_db and name = "''users''" and f = "[]"
                   and zero = "\<lparr>ID = 0, Name = []\<rparr>"]
  have "fst (SaveMany mem_driver users_db ''users'' [] (mem_world [jane]))
          = (None, Some ErrEmptySlice)"
    using inst by (simp add: mem_InsertMany_def)
  moreover have "each_call_once (appended (mem_world [jane])
         (snd (Find mem_driver users_db ''users'' [] [] (- 1) 10 (mem_world [jane]))))"
    using inst by blast
  moreover have "snd (fst (Find mem_driver users_db ''users'' [] [] (- 1) 10 (mem_world [jane])))
       = Some CommandError"
    using inst by (simp add: mem_Find_def)
  moreover have "snd (fst (FindOne mem_driver_timing_out \<lparr>ID = 0, Name = []\<rparr> users_db ''users'' []
                  (mem_world [jane]))) = Some DeadlineExceeded"
    using inst' by simp
  ultimately show ?thesis
    by blast
qed

text \<open>
  \<^verbatim>\<open>Find\<close> on a service whose \<^verbatim>\<open>cursor.Close\<close> reports an error: the call is made,
  the error is reported, and \<^verbatim>\<open>Find\<close> returns the documents and no error.
\<close>

theorem Find_close_error_counterexample:
  "calls_of (appended (mem_world [jane])
      (snd (Find mem_driver_close_fails users_db ''users'' [] [] 0 10 (mem_world [jane]))))
     = [ReqFind (Collection users_db ''users'') (BsonD [])
          \<lparr>Sort = Some (BsonD []), Skip = Some 0, Limit = Some 10\<rparr>,
        ReqCursorAll (CursorRef 0), ReqCursorClose (CursorRef 0)]
   \<and> fst (drv_Cursor_Close mem_driver_close_fails ten_seconds (CursorRef 0)
            (svc (snd (Find mem_driver_close_fails users_db ''users'' [] [] 0 10
                         (mem_world [jane])))))
       = Some CommandError
   \<and> fst (Find mem_driver_close_fails users_db ''users'' [] [] 0 10 (mem_world [jane]))
       = (Some [jane], None)"
  by (simp add: Find_run Let_def mem_Find_def mem_select_def mem_limit_def appended_def)

text \<open>
  C10: when \<^verbatim>\<open>Connect\<close> has returned a client and \<^verbatim>\<open>Ping\<close> then fails,
  \<^verbatim>\<open>NewMongoHandler\<close> returns the error of \<^verbatim>\<open>Ping\<close> and no handle; it has called
  \<^verbatim>\<open>Connect\<close> and \<^verbatim>\<open>Ping\<close> and nothing else, so the client is never
  disconnected, and the service is left in the state in which \<^verbatim>\<open>Ping\<close> left it.
\<close>

theorem NewMongoHandler_ping_failure_leaves_session:
  assumes conn: "drv_Connect drv ten_seconds (ApplyURI options_Client url) (svc w) = (Inr c, s1)"
      and ping: "drv_Ping drv ten_seconds c s1 = (Some e, s2)"
  shows "fst (NewMongoHandler drv dbName url w) = (None, Some e)
         \<and> calls_of (appended w (snd (NewMongoHandler drv dbName url w)))
             = [ReqConnect (ApplyURI options_Client url), ReqPing c]
         \<and> KDisconnect \<notin> set (map kind_of (calls_of (appended w (snd (NewMongoHandler drv dbName url w)))))
         \<and> svc (snd (NewMongoHandler drv dbName url w)) = s2"
  using conn ping by (simp add: NewMongoHandler_run Let_def split_def)

theorem NewMongoHandler_ping_failure_witness:
  "fst (NewMongoHandler mem_driver_no_ping ''test_db'' ''mongodb://localhost:27017''
          (mem_world [])) = (None, Some DeadlineExceeded)
   \<and> calls_of (appended (mem_world [])
         (snd (NewMongoHandler mem_driver_no_ping ''test_db'' ''mongodb://localhost:27017''
                 (mem_world []))))
       = [ReqConnect \<lparr>co_uri = Some ''mongodb://localhost:27017''\<rparr>, ReqPing (ClientRef 0)]"
  using NewMongoHandler_ping_failure_leaves_session
          [of mem_driver_no_ping "''mongodb://localhost:27017''" "mem_world []" "ClientRef 0"
              "svc (mem_world [])" DeadlineExceeded "svc (mem_world [])" "''test_db''"]
  by (simp add: ApplyURI_def options_Client_def)

end
